theory Spec2Isabelle
  imports Complex_Main
begin

section \<open>Python values, errors and text\<close>

text \<open>
  The retrieval and grounding tools of \<^verbatim>\<open>src/app/backend/ragtools.py\<close>. A Python
  \<^verbatim>\<open>str\<close> is a list of characters, one \<^typ>\<open>char\<close> for each character of the
  text (so \<^const>\<open>length\<close> is Python's \<^verbatim>\<open>len\<close>); the characters that
  \<^typ>\<open>char\<close> provides are the code points below 256. The exceptions that the
  statements of the source itself can raise are values of \<open>error\<close>; a function that
  can raise returns \<open>error + 'a\<close>, with \<open>Inl\<close> for the exception.
\<close>

datatype error = KeyError | IndexError | ValueError | UnboundLocalError

text \<open>
  Reading a local name that no statement has bound raises \<^verbatim>\<open>UnboundLocalError\<close>,
  which Python defines as a subclass of \<^verbatim>\<open>NameError\<close>: an
  \<^verbatim>\<open>except NameError\<close> clause catches it.
\<close>

definition is_NameError :: "error \<Rightarrow> bool" where
  "is_NameError e = (e = UnboundLocalError)"

abbreviation nl :: char where
  "nl \<equiv> CHR 0x0A"

abbreviation dquote :: char where
  "dquote \<equiv> CHR 0x22"

text \<open>\<^verbatim>\<open>xs[0]\<close>: the first element, \<^verbatim>\<open>IndexError\<close> on an empty list.\<close>

definition index0 :: "'a list \<Rightarrow> error + 'a" where
  "index0 xs = (case xs of [] \<Rightarrow> Inl IndexError | x # _ \<Rightarrow> Inr x)"

text \<open>
  \<^verbatim>\<open>f"{v}"\<close> where \<^verbatim>\<open>v\<close> is the result of \<^verbatim>\<open>os.getenv\<close>: the string itself, or
  the text \<^verbatim>\<open>None\<close> when the variable is not set.
\<close>

definition fstr :: "string option \<Rightarrow> string" where
  "fstr v = (case v of None \<Rightarrow> ''None'' | Some s \<Rightarrow> s)"

text \<open>\<^verbatim>\<open>str(n)\<close> for a loop index: the decimal digits of a natural number.\<close>

definition digit_char :: "nat \<Rightarrow> char" where
  "digit_char d = ''0123456789'' ! d"

function str_nat :: "nat \<Rightarrow> string" where
  "str_nat n = (if n < 10 then [digit_char n] else str_nat (n div 10) @ [digit_char (n mod 10)])"
  by pat_completeness auto
termination
  by (relation "measure id") auto

text \<open>
  \<^verbatim>\<open>range(start, stop, step)\<close> for a positive step, on natural numbers: \<open>start\<close>,
  \<open>start + step\<close>, ... below \<open>stop\<close>.
\<close>

function py_range_up :: "nat \<Rightarrow> nat \<Rightarrow> nat \<Rightarrow> nat list" where
  "py_range_up i stop step =
     (if step = 0 \<or> stop \<le> i then [] else i # py_range_up (i + step) stop step)"
  by pat_completeness auto
termination
  by (relation "measure (\<lambda>(i, stop, step). stop - i)") auto

declare py_range_up.simps [simp del]
declare str_nat.simps [simp del]

section \<open>chunk\_text\<close>

text \<open>
  \<^verbatim>\<open>
  def chunk_text(text, chunk_size=1000):
      return [text[i:i + chunk_size] for i in range(0, len(text), chunk_size)]
  \<close>
  \<^verbatim>\<open>range\<close> raises \<^verbatim>\<open>ValueError\<close> for a step of zero and is empty for a negative
  step (its start 0 is not above its stop). For \<open>0 \<le> i < len(text)\<close> and a positive
  size the slice \<^verbatim>\<open>text[i:i + chunk_size]\<close> is the next \<open>chunk_size\<close> elements from
  position \<open>i\<close>, fewer at the end of the text. The function takes no overlap.
\<close>

definition chunk_text :: "'a list \<Rightarrow> int \<Rightarrow> error + 'a list list" where
  "chunk_text text chunk_size =
     (if chunk_size = 0 then Inl ValueError
      else if chunk_size < 0 then Inr []
      else Inr (map (\<lambda>i. take (nat chunk_size) (drop i text))
                    (py_range_up 0 (length text) (nat chunk_size))))"

text \<open>
  The splitter contract in the words of the specification, for a text, a chunk size
  \<open>C\<close>, an overlap \<open>ov\<close> and a sequence of segments: the number of segments is
  \<open>ceil((L - ov) / (C - ov))\<close>, each segment has at most \<open>C\<close> elements, each consecutive
  pair shares \<open>ov\<close> elements at the boundary (the last \<open>ov\<close> of one are the first \<open>ov\<close>
  of the next), and the segments with the overlaps removed concatenate to the text.
\<close>

definition spec_segment_count :: "nat \<Rightarrow> nat \<Rightarrow> nat \<Rightarrow> int" where
  "spec_segment_count L C ov = \<lceil>(real L - real ov) / (real C - real ov)\<rceil>"

definition shares_overlap :: "nat \<Rightarrow> 'a list \<Rightarrow> 'a list \<Rightarrow> bool" where
  "shares_overlap ov a b =
     (ov \<le> length a \<and> ov \<le> length b \<and> drop (length a - ov) a = take ov b)"

fun consecutive_overlap :: "nat \<Rightarrow> 'a list list \<Rightarrow> bool" where
  "consecutive_overlap ov (a # b # rest) =
     (shares_overlap ov a b \<and> consecutive_overlap ov (b # rest))"
| "consecutive_overlap ov [a] = True"
| "consecutive_overlap ov [] = True"

fun remove_overlaps :: "nat \<Rightarrow> 'a list list \<Rightarrow> 'a list" where
  "remove_overlaps ov [] = []"
| "remove_overlaps ov (a # rest) = a @ concat (map (drop ov) rest)"

definition split_spec :: "'a list \<Rightarrow> nat \<Rightarrow> nat \<Rightarrow> 'a list list \<Rightarrow> bool" where
  "split_spec text C ov segs =
     (int (length segs) = spec_segment_count (length text) C ov
      \<and> list_all (\<lambda>s. length s \<le> C) segs
      \<and> consecutive_overlap ov segs
      \<and> remove_overlaps ov segs = text)"

section \<open>Provisioning policies\<close>

text \<open>
  The policies are Python dictionaries with fixed keys, here records. An entry of
  \<^verbatim>\<open>includedPaths\<close> or \<^verbatim>\<open>excludedPaths\<close> is a dictionary with the single key
  \<^verbatim>\<open>path\<close>; the lists hold the values of that key.
\<close>

record vector_index =
  vi_path :: string
  vi_type :: string

record indexing_policy_t =
  indexingMode :: string
  includedPaths :: "string list"
  excludedPaths :: "string list"
  vectorIndexes :: "vector_index list"

record vector_embedding =
  ve_path :: string
  ve_dataType :: string
  ve_dimensions :: int
  ve_distanceFunction :: string

record embedding_policy_t =
  vectorEmbeddings :: "vector_embedding list"

text \<open>
  \<^verbatim>\<open>
  def get_vector_indexing_policy(embedding_path, embedding_type):
      for i in range(0, len(embedding_type)):
          vectorIndexes = []
          vectorIndex = {"path": embedding_path[0], "type": f"{embedding_type[0]}"}
          vectorIndexes.append(vectorIndex)
      return {"indexingMode": "consistent", "includedPaths": [{"path": "/*"}],
              'excludedPaths': [{'path': '/"_etag"/?'}], "vectorIndexes": vectorIndexes}
  \<close>
  The loop runs over the indices of \<^verbatim>\<open>embedding_type\<close>. Its state is the local
  \<^verbatim>\<open>vectorIndexes\<close>, \<open>None\<close> while no statement has bound it. Each round binds it to
  a new empty list and appends one entry.
\<close>

fun indexing_loop ::
  "nat list \<Rightarrow> string list \<Rightarrow> string option list \<Rightarrow> vector_index list option
     \<Rightarrow> error + vector_index list option" where
  "indexing_loop [] embedding_path embedding_type vectorIndexes' = Inr vectorIndexes'"
| "indexing_loop (i # rest) embedding_path embedding_type vectorIndexes' =
     (case index0 embedding_path of
        Inl e \<Rightarrow> Inl e
      | Inr p \<Rightarrow>
          (case index0 embedding_type of
             Inl e \<Rightarrow> Inl e
           | Inr t \<Rightarrow>
               indexing_loop rest embedding_path embedding_type
                 (Some ([] @ [\<lparr>vi_path = p, vi_type = fstr t\<rparr>]))))"

definition get_vector_indexing_policy ::
  "string list \<Rightarrow> string option list \<Rightarrow> error + indexing_policy_t" where
  "get_vector_indexing_policy embedding_path embedding_type =
     (case indexing_loop [0..<length embedding_type] embedding_path embedding_type None of
        Inl e \<Rightarrow> Inl e
      | Inr None \<Rightarrow> Inl UnboundLocalError
      | Inr (Some vectorIndexes') \<Rightarrow>
          Inr \<lparr>indexingMode = ''consistent'',
               includedPaths = [''/*''],
               excludedPaths = [''/'' @ [dquote] @ ''_etag'' @ [dquote] @ ''/?''],
               vectorIndexes = vectorIndexes'\<rparr>)"

text \<open>
  \<^verbatim>\<open>
  def get_vector_embedding_policy(embedding_path, distance_function, data_type, dimensions):
      for i in range(0, len(distance_function)):
          vectorEmbeddings = []
          vectorEmbedding = {"path": embedding_path[0], "dataType": f"{data_type[0]}",
                             "dimensions": dimensions[0],
                             "distanceFunction": f"{distance_function[0]}"}
          vectorEmbeddings.append(vectorEmbedding)
      return {"vectorEmbeddings": vectorEmbeddings}
  \<close>
  The entries of the dictionary are evaluated in the order written.
\<close>

fun embedding_loop ::
  "nat list \<Rightarrow> string list \<Rightarrow> string list \<Rightarrow> string list \<Rightarrow> int list
     \<Rightarrow> vector_embedding list option \<Rightarrow> error + vector_embedding list option" where
  "embedding_loop [] embedding_path distance_function data_type dimensions vectorEmbeddings' =
     Inr vectorEmbeddings'"
| "embedding_loop (i # rest) embedding_path distance_function data_type dimensions
       vectorEmbeddings' =
     (case index0 embedding_path of
        Inl e \<Rightarrow> Inl e
      | Inr p \<Rightarrow>
          (case index0 data_type of
             Inl e \<Rightarrow> Inl e
           | Inr t \<Rightarrow>
               (case index0 dimensions of
                  Inl e \<Rightarrow> Inl e
                | Inr d \<Rightarrow>
                    (case index0 distance_function of
                       Inl e \<Rightarrow> Inl e
                     | Inr f \<Rightarrow>
                         embedding_loop rest embedding_path distance_function data_type
                           dimensions
                           (Some ([] @ [\<lparr>ve_path = p, ve_dataType = t, ve_dimensions = d,
                                          ve_distanceFunction = f\<rparr>]))))))"

definition get_vector_embedding_policy ::
  "string list \<Rightarrow> string list \<Rightarrow> string list \<Rightarrow> int list \<Rightarrow> error + embedding_policy_t" where
  "get_vector_embedding_policy embedding_path distance_function data_type dimensions =
     (case embedding_loop [0..<length distance_function] embedding_path distance_function
             data_type dimensions None of
        Inl e \<Rightarrow> Inl e
      | Inr None \<Rightarrow> Inl UnboundLocalError
      | Inr (Some vectorEmbeddings') \<Rightarrow> Inr \<lparr>vectorEmbeddings = vectorEmbeddings'\<rparr>)"

text \<open>
  The two calls of \<^verbatim>\<open>attach_rag_tools_cosmosdb\<close>; \<open>cosmos_db_vector_embedding_type\<close>
  is the value of \<^verbatim>\<open>os.getenv("COSMOSDB_VECTOR_EMBEDDINGS_TYPE")\<close>.
  \<^verbatim>\<open>
  indexing_policy=get_vector_indexing_policy(
      embedding_path=["/embedding"], embedding_type=[cosmos_db_vector_embedding_type])
  vector_embedding_policy=get_vector_embedding_policy(
      embedding_path=["/embedding"], distance_function=["cosine"],
      data_type=["float32"], dimensions=[1536])
  \<close>
\<close>

definition indexing_policy :: "string option \<Rightarrow> error + indexing_policy_t" where
  "indexing_policy cosmos_db_vector_embedding_type =
     get_vector_indexing_policy [''/embedding''] [cosmos_db_vector_embedding_type]"

definition vector_embedding_policy :: "error + embedding_policy_t" where
  "vector_embedding_policy =
     get_vector_embedding_policy [''/embedding''] [''cosine''] [''float32''] [1536]"

section \<open>Documents, the vector store and tool results\<close>

text \<open>
  A langchain \<^verbatim>\<open>Document\<close> has the text \<^verbatim>\<open>page_content\<close> and the dictionary
  \<^verbatim>\<open>metadata\<close>, here the list of its entries. The vector store is reached through
  its method \<^verbatim>\<open>similarity_search\<close>, which takes the query text and returns the
  matching documents, best match first; it is a capability of the backend and a
  parameter of the model. The \<^verbatim>\<open>print\<close> calls of the source write to the console
  and are left out.
\<close>

record document =
  page_content :: string
  metadata :: "(string \<times> string) list"

record vector_store =
  similarity_search :: "string \<Rightarrow> document list"

text \<open>
  Modelled from the spec: \<^verbatim>\<open>ToolResult\<close> and \<^verbatim>\<open>ToolResultDirection\<close> of the module
  \<^verbatim>\<open>rtmt\<close>, which is not among the source files. A tool result is a payload text
  with a direction; the source builds it as
  \<^verbatim>\<open>ToolResult(result_str, ToolResultDirection.TO_SERVER)\<close>.
\<close>

datatype ToolResultDirection = TO_SERVER | TO_CLIENT

record ToolResult =
  payload :: string
  direction :: ToolResultDirection

text \<open>
  \<^verbatim>\<open>str.isspace\<close> and \<^verbatim>\<open>str.strip\<close>: the white space characters among the code
  points below 256 are 9 to 13, 28 to 32, 133 and 160. \<^verbatim>\<open>isspace\<close> is false for
  the empty text.
\<close>

definition is_space :: "char \<Rightarrow> bool" where
  "is_space c =
     (let n = (of_char c :: nat)
      in (9 \<le> n \<and> n \<le> 13) \<or> (28 \<le> n \<and> n \<le> 32) \<or> n = 133 \<or> n = 160)"

definition isspace :: "string \<Rightarrow> bool" where
  "isspace s = (s \<noteq> [] \<and> list_all is_space s)"

definition strip :: "string \<Rightarrow> string" where
  "strip s = rev (dropWhile is_space (rev (dropWhile is_space s)))"

section \<open>The search tool\<close>

text \<open>
  \<^verbatim>\<open>
  def vector_search(query, vector_store):
      docs = vector_store.similarity_search(query)
      return docs
  \<close>
\<close>

definition vector_search :: "string \<Rightarrow> vector_store \<Rightarrow> document list" where
  "vector_search query vector_store = similarity_search vector_store query"

text \<open>
  \<^verbatim>\<open>
  result_str = ""
  for i, doc in enumerate(results):
      truncated_content = doc.page_content[:2000] if len(doc.page_content) > 2000 else doc.page_content
      result_str += f"[doc_{i}]: Content: {truncated_content}\n-----\n"
  \<close>
  The loop, with the index \<open>i\<close> and the text built so far.
\<close>

fun search_format :: "nat \<Rightarrow> document list \<Rightarrow> string \<Rightarrow> string" where
  "search_format i [] result_str = result_str"
| "search_format i (doc # rest) result_str =
     (let truncated_content =
            (if length (page_content doc) > 2000 then take 2000 (page_content doc)
             else page_content doc)
      in search_format (Suc i) rest
           (result_str @ ''[doc_'' @ str_nat i @ '']: Content: '' @ truncated_content
              @ [nl] @ ''-----'' @ [nl]))"

text \<open>
  \<^verbatim>\<open>
  def _search_tool(vector_store, args):
      query = args['query']
      results = vector_search(query, vector_store)
      result_str = ""
      for i, doc in enumerate(results): ...
      if not result_str or result_str.isspace():
          result_str = "1"
      return ToolResult(result_str, ToolResultDirection.TO_SERVER)
  \<close>
  \<^verbatim>\<open>args\<close> is the dictionary of the tool call; by the tool's schema the value of
  \<^verbatim>\<open>query\<close> is a string. A missing key raises \<^verbatim>\<open>KeyError\<close>.
  The tools are named here without the leading underscore of the source.
\<close>

definition search_tool :: "vector_store \<Rightarrow> (string \<rightharpoonup> string) \<Rightarrow> error + ToolResult" where
  "search_tool vector_store args =
     (case args ''query'' of
        None \<Rightarrow> Inl KeyError
      | Some query \<Rightarrow>
          (let results = vector_search query vector_store;
               result_str = search_format 0 results [];
               result_str = (if result_str = [] \<or> isspace result_str then ''1'' else result_str)
           in Inr \<lparr>payload = result_str, direction = TO_SERVER\<rparr>))"

section \<open>The grounding tool\<close>

text \<open>
  \<^verbatim>\<open>re.match(r'^[a-zA-Z0-9_=\-]+$', s)\<close>. The class holds the ASCII letters and
  digits and the three characters \<^verbatim>\<open>_\<close>, \<^verbatim>\<open>=\<close> and \<^verbatim>\<open>-\<close>. \<^verbatim>\<open>re.match\<close> matches
  from the start of the text; the pattern takes one or more characters of the class and
  then \<^verbatim>\<open>$\<close>, which (without the flag \<^verbatim>\<open>MULTILINE\<close>) matches at the end of the
  text and also just before a newline that is the last character of the text. There is
  a match when some number \<open>n \<ge> 1\<close> of leading class characters is followed by a
  position where \<^verbatim>\<open>$\<close> matches.
\<close>

definition in_class :: "char \<Rightarrow> bool" where
  "in_class c =
     (let n = (of_char c :: nat)
      in (97 \<le> n \<and> n \<le> 122) \<or> (65 \<le> n \<and> n \<le> 90) \<or> (48 \<le> n \<and> n \<le> 57)
         \<or> c = CHR ''_'' \<or> c = CHR ''='' \<or> c = CHR ''-'')"

definition at_dollar :: "string \<Rightarrow> bool" where
  "at_dollar rest = (rest = [] \<or> rest = [nl])"

definition re_match_source :: "string \<Rightarrow> bool" where
  "re_match_source s =
     list_ex (\<lambda>n. list_all in_class (take n s) \<and> at_dollar (drop n s)) [1..<Suc (length s)]"

text \<open>
  The allow-list in the words of the specification: the whole text is one or more
  characters of the class.
\<close>

definition spec_allow_listed :: "string \<Rightarrow> bool" where
  "spec_allow_listed s = (s \<noteq> [] \<and> list_all in_class s)"

text \<open>
  \<^verbatim>\<open>valid_sources = [s for s in sources if re.match(r'^[a-zA-Z0-9_=\-]+$', s)]\<close>
\<close>

definition valid_sources :: "string list \<Rightarrow> string list" where
  "valid_sources sources = filter re_match_source sources"

text \<open>
  \<^verbatim>\<open>
  search_results = []
  for source in valid_sources:
      docs = vector_store.similarity_search(source)
      for doc in docs:
          search_results.append({"content": doc.page_content, "metadata": doc})
  \<close>
\<close>

record search_result =
  content :: string
  result_metadata :: document

fun append_docs :: "document list \<Rightarrow> search_result list \<Rightarrow> search_result list" where
  "append_docs [] search_results = search_results"
| "append_docs (doc # rest) search_results =
     append_docs rest
       (search_results @ [\<lparr>content = page_content doc, result_metadata = doc\<rparr>])"

fun collect_results ::
  "vector_store \<Rightarrow> string list \<Rightarrow> search_result list \<Rightarrow> search_result list" where
  "collect_results vector_store [] search_results = search_results"
| "collect_results vector_store (source # rest) search_results =
     (let docs = similarity_search vector_store source
      in collect_results vector_store rest (append_docs docs search_results))"

text \<open>
  \<^verbatim>\<open>
  result_str = ""
  for result in search_results:
      result_str += f"[{result['content'][:200]}...\n-----\n"
  \<close>
\<close>

fun grounding_format :: "search_result list \<Rightarrow> string \<Rightarrow> string" where
  "grounding_format [] result_str = result_str"
| "grounding_format (result # rest) result_str =
     grounding_format rest
       (result_str @ ''['' @ take 200 (content result) @ ''...'' @ [nl] @ ''-----'' @ [nl])"

text \<open>
  \<^verbatim>\<open>
  def _report_grounding_tool(vector_store, args):
      sources = args["sources"]
      valid_sources = [s for s in sources if re.match(r'^[a-zA-Z0-9_=\-]+$', s)]
      ...
      if not result_str or result_str.isspace():
          result_str = "1"
      return ToolResult(result_str.strip(), ToolResultDirection.TO_SERVER)
  \<close>
  By the tool's schema the value of \<^verbatim>\<open>sources\<close> is a list of strings.
\<close>

definition report_grounding_tool ::
  "vector_store \<Rightarrow> (string \<rightharpoonup> string list) \<Rightarrow> error + ToolResult" where
  "report_grounding_tool vector_store args =
     (case args ''sources'' of
        None \<Rightarrow> Inl KeyError
      | Some sources \<Rightarrow>
          (let search_results = collect_results vector_store (valid_sources sources) [];
               result_str = grounding_format search_results [];
               result_str = (if result_str = [] \<or> isspace result_str then ''1'' else result_str)
           in Inr \<lparr>payload = strip result_str, direction = TO_SERVER\<rparr>))"

section \<open>Ingestion\<close>













section \<open>Example stores\<close>

text \<open>
  An empty knowledge base, and a store that holds two chunks of \<^verbatim>\<open>manual.pdf\<close>: the
  query \<^verbatim>\<open>installation\<close> matches chunk 1 best and chunk 0 second, the query
  \<^verbatim>\<open>doc_0\<close> matches chunk 1, and no other query matches.
\<close>

definition empty_store :: vector_store where
  "empty_store = \<lparr>similarity_search = (\<lambda>query. [])\<rparr>"

definition manual_chunk_0 :: document where
  "manual_chunk_0 = \<lparr>page_content = ''Unpack the device.'',
                      metadata = [(''title'', ''manual.pdf_chunk_0'')]\<rparr>"

definition manual_chunk_1 :: document where
  "manual_chunk_1 = \<lparr>page_content = ''The installation takes an hour.'',
                      metadata = [(''title'', ''manual.pdf_chunk_1'')]\<rparr>"

definition manual_store :: vector_store where
  "manual_store =
     \<lparr>similarity_search =
        (\<lambda>query. if query = ''installation'' then [manual_chunk_1, manual_chunk_0]
                  else if query = ''doc_0'' then [manual_chunk_1]
                  else [])\<rparr>"






section \<open>Properties of the provisioning policies\<close>

lemma index0_Cons: "index0 (x # xs) = Inr x"
  by (simp add: index0_def)

lemma index0_Nil: "index0 [] = Inl IndexError"
  by (simp add: index0_def)

text \<open>
  Once the loop runs at least one round, its result is the one-entry list of the last
  round, whatever the state before and however many rounds there are.
\<close>

lemma indexing_loop_nonempty:
  "rest \<noteq> [] \<Longrightarrow> indexing_loop rest ep et st =
     (case index0 ep of Inl e \<Rightarrow> Inl e
      | Inr p \<Rightarrow> (case index0 et of Inl e \<Rightarrow> Inl e
          | Inr t \<Rightarrow> Inr (Some [\<lparr>vi_path = p, vi_type = fstr t\<rparr>])))"
proof (induction rest arbitrary: st)
  case Nil
  then show ?case by simp
next
  case (Cons i rest)
  show ?case
  proof (cases "rest = []")
    case True
    then show ?thesis by (simp split: sum.splits)
  next
    case False
    then show ?thesis using Cons.IH by (simp split: sum.splits)
  qed
qed

lemma embedding_loop_nonempty:
  "rest \<noteq> [] \<Longrightarrow> embedding_loop rest ep df dt dims st =
     (case index0 ep of Inl e \<Rightarrow> Inl e
      | Inr p \<Rightarrow> (case index0 dt of Inl e \<Rightarrow> Inl e
          | Inr t \<Rightarrow> (case index0 dims of Inl e \<Rightarrow> Inl e
             | Inr d \<Rightarrow> (case index0 df of Inl e \<Rightarrow> Inl e
                | Inr f \<Rightarrow> Inr (Some [\<lparr>ve_path = p, ve_dataType = t, ve_dimensions = d,
                                          ve_distanceFunction = f\<rparr>])))))"
proof (induction rest arbitrary: st)
  case Nil
  then show ?case by simp
next
  case (Cons i rest)
  show ?case
  proof (cases "rest = []")
    case True
    then show ?thesis by (simp split: sum.splits)
  next
    case False
    then show ?thesis using Cons.IH by (simp split: sum.splits)
  qed
qed

lemma upt_length_Cons_nonempty: "[0..<length (x # xs)] \<noteq> []"
  by simp

lemma get_vector_indexing_policy_Cons:
  "get_vector_indexing_policy ep (t0 # ts) =
     (case index0 ep of Inl e \<Rightarrow> Inl e
      | Inr p \<Rightarrow> Inr \<lparr>indexingMode = ''consistent'', includedPaths = [''/*''],
               excludedPaths = [''/'' @ [dquote] @ ''_etag'' @ [dquote] @ ''/?''],
               vectorIndexes = [\<lparr>vi_path = p, vi_type = fstr t0\<rparr>]\<rparr>)"
  unfolding get_vector_indexing_policy_def
  by (simp only: indexing_loop_nonempty [OF upt_length_Cons_nonempty])
     (simp add: index0_Cons split: sum.splits)

lemma get_vector_embedding_policy_Cons:
  "get_vector_embedding_policy ep (f0 # fs) dt dims =
     (case index0 ep of Inl e \<Rightarrow> Inl e
      | Inr p \<Rightarrow> (case index0 dt of Inl e \<Rightarrow> Inl e
          | Inr t \<Rightarrow> (case index0 dims of Inl e \<Rightarrow> Inl e
             | Inr d \<Rightarrow> Inr \<lparr>vectorEmbeddings = [\<lparr>ve_path = p, ve_dataType = t,
                                  ve_dimensions = d, ve_distanceFunction = f0\<rparr>]\<rparr>)))"
  unfolding get_vector_embedding_policy_def
  by (simp only: embedding_loop_nonempty [OF upt_length_Cons_nonempty])
     (simp add: index0_Cons split: sum.splits)

text \<open>
  Claim C8. For a non-empty \<^verbatim>\<open>embedding_type\<close> list the indexing policy that
  \<^verbatim>\<open>get_vector_indexing_policy\<close> returns has as its \<^verbatim>\<open>vectorIndexes\<close> the one-entry
  list built from element 0 of \<^verbatim>\<open>embedding_path\<close> and element 0 of
  \<^verbatim>\<open>embedding_type\<close>, whatever else the lists hold; likewise the \<^verbatim>\<open>vectorEmbeddings\<close>
  of \<^verbatim>\<open>get_vector_embedding_policy\<close> for a non-empty \<^verbatim>\<open>distance_function\<close> list is
  the one entry built from the elements 0 of the four lists. The remaining calls with
  such a list, those where a list read at index 0 is empty, return no policy: they
  raise \<^verbatim>\<open>IndexError\<close>.
\<close>

theorem policy_built_from_element_zero:
  "get_vector_indexing_policy (p0 # ps) (t0 # ts) =
     Inr \<lparr>indexingMode = ''consistent'', includedPaths = [''/*''],
          excludedPaths = [''/'' @ [dquote] @ ''_etag'' @ [dquote] @ ''/?''],
          vectorIndexes = [\<lparr>vi_path = p0, vi_type = fstr t0\<rparr>]\<rparr>
   \<and> get_vector_indexing_policy [] (t0 # ts) = Inl IndexError
   \<and> get_vector_embedding_policy (p0 # ps) (f0 # fs) (d0 # ds) (n0 # ns) =
       Inr \<lparr>vectorEmbeddings = [\<lparr>ve_path = p0, ve_dataType = d0, ve_dimensions = n0,
                                  ve_distanceFunction = f0\<rparr>]\<rparr>
   \<and> get_vector_embedding_policy [] (f0 # fs) dt dims = Inl IndexError
   \<and> get_vector_embedding_policy (p0 # ps) (f0 # fs) [] dims = Inl IndexError
   \<and> get_vector_embedding_policy (p0 # ps) (f0 # fs) (d0 # ds) [] = Inl IndexError"
  by (simp add: get_vector_indexing_policy_Cons get_vector_embedding_policy_Cons
        index0_Cons index0_Nil)

text \<open>
  Claim C10. With an empty \<^verbatim>\<open>embedding_type\<close> list, respectively an empty
  \<^verbatim>\<open>distance_function\<close> list, the loop body never runs and the \<^verbatim>\<open>return\<close>
  statement reads a name that was never bound: the call raises
  \<^verbatim>\<open>UnboundLocalError\<close>, a \<^verbatim>\<open>NameError\<close>. So either function returns a policy only
  if that list is non-empty.
\<close>

theorem empty_list_unbound_local:
  "get_vector_indexing_policy embedding_path [] = Inl UnboundLocalError
   \<and> get_vector_embedding_policy embedding_path [] data_type dimensions = Inl UnboundLocalError
   \<and> is_NameError UnboundLocalError
   \<and> (\<forall>p. get_vector_indexing_policy embedding_path embedding_type = Inr p
          \<longrightarrow> embedding_type \<noteq> [])
   \<and> (\<forall>p. get_vector_embedding_policy embedding_path distance_function data_type dimensions
            = Inr p
          \<longrightarrow> distance_function \<noteq> [])"
  by (auto simp: get_vector_indexing_policy_def get_vector_embedding_policy_def
        is_NameError_def)

theorem empty_list_unbound_local_witness:
  "get_vector_indexing_policy [''/embedding''] [Some ''diskANN''] =
     Inr \<lparr>indexingMode = ''consistent'', includedPaths = [''/*''],
          excludedPaths = [''/'' @ [dquote] @ ''_etag'' @ [dquote] @ ''/?''],
          vectorIndexes = [\<lparr>vi_path = ''/embedding'', vi_type = ''diskANN''\<rparr>]\<rparr>
   \<and> [Some ''diskANN''] \<noteq> []
   \<and> get_vector_embedding_policy [''/embedding''] [''cosine''] [''float32''] [1536] =
     Inr \<lparr>vectorEmbeddings = [\<lparr>ve_path = ''/embedding'', ve_dataType = ''float32'',
            ve_dimensions = 1536, ve_distanceFunction = ''cosine''\<rparr>]\<rparr>
   \<and> [''cosine''] \<noteq> []
   \<and> get_vector_indexing_policy [''/embedding''] [] = Inl UnboundLocalError
   \<and> get_vector_embedding_policy [''/embedding''] [] [''float32''] [1536]
       = Inl UnboundLocalError"
  using empty_list_unbound_local [of "[''/embedding'']" "[''float32'']" "[1536]"
          "[Some ''diskANN'']" "[''cosine'']"]
  by (simp add: get_vector_indexing_policy_def get_vector_embedding_policy_def index0_def
        fstr_def)

text \<open>
  Claim C9, as the source has it. The policies built at attach time: the indexing
  policy has the mode \<^verbatim>\<open>consistent\<close>, the included path \<^verbatim>\<open>/*\<close>, the excluded path
  \<^verbatim>\<open>/"_etag"/?\<close> (with the double quotes around \<^verbatim>\<open>_etag\<close>) and one vector index, at
  the path \<^verbatim>\<open>/embedding\<close> and of the configured type; the embedding policy has one
  entry with the path \<^verbatim>\<open>/embedding\<close>, the data type \<^verbatim>\<open>float32\<close>, 1536 dimensions and
  the distance function \<^verbatim>\<open>cosine\<close>.
\<close>

theorem attach_policies_shape:
  "indexing_policy cosmos_db_vector_embedding_type =
     Inr \<lparr>indexingMode = ''consistent'', includedPaths = [''/*''],
          excludedPaths = [''/'' @ [dquote] @ ''_etag'' @ [dquote] @ ''/?''],
          vectorIndexes = [\<lparr>vi_path = ''/embedding'',
                            vi_type = fstr cosmos_db_vector_embedding_type\<rparr>]\<rparr>
   \<and> vector_embedding_policy =
     Inr \<lparr>vectorEmbeddings = [\<lparr>ve_path = ''/embedding'', ve_dataType = ''float32'',
            ve_dimensions = 1536, ve_distanceFunction = ''cosine''\<rparr>]\<rparr>"
  by (simp add: indexing_policy_def vector_embedding_policy_def
        get_vector_indexing_policy_def get_vector_embedding_policy_def index0_def)

text \<open>
  The excluded path is not the text \<^verbatim>\<open>/_etag/?\<close>: with the index type
  \<^verbatim>\<open>diskANN\<close> configured, the policy built is not the one with that excluded path.
\<close>

theorem excluded_path_counterexample:
  "indexing_policy (Some ''diskANN'') \<noteq>
     Inr \<lparr>indexingMode = ''consistent'', includedPaths = [''/*''],
          excludedPaths = [''/_etag/?''],
          vectorIndexes = [\<lparr>vi_path = ''/embedding'', vi_type = ''diskANN''\<rparr>]\<rparr>"
  by (simp add: indexing_policy_def get_vector_indexing_policy_def index0_def fstr_def)

section \<open>Properties of the source filter\<close>

text \<open>
  What the pattern accepts: the texts made of class characters only, and those texts
  followed by one newline.
\<close>

lemma re_match_source_iff:
  "re_match_source s \<longleftrightarrow> spec_allow_listed s \<or> (\<exists>b. spec_allow_listed b \<and> s = b @ [nl])"
proof
  assume "re_match_source s"
  then obtain n where n: "1 \<le> n" "n \<le> length s" "list_all in_class (take n s)"
      "drop n s = [] \<or> drop n s = [nl]"
    by (auto simp: re_match_source_def list_ex_iff at_dollar_def)
  from n(4) show "spec_allow_listed s \<or> (\<exists>b. spec_allow_listed b \<and> s = b @ [nl])"
  proof
    assume "drop n s = []"
    with n have "take n s = s" "s \<noteq> []" by auto
    with n(3) show ?thesis by (simp add: spec_allow_listed_def)
  next
    assume d: "drop n s = [nl]"
    have "s = take n s @ [nl]" using append_take_drop_id [of n s] d by simp
    moreover have "take n s \<noteq> []" using n by auto
    ultimately have "spec_allow_listed (take n s) \<and> s = take n s @ [nl]"
      using n(3) by (simp add: spec_allow_listed_def)
    then show ?thesis by blast
  qed
next
  assume "spec_allow_listed s \<or> (\<exists>b. spec_allow_listed b \<and> s = b @ [nl])"
  then show "re_match_source s"
  proof
    assume a: "spec_allow_listed s"
    then have "1 \<le> length s" by (cases s) (auto simp: spec_allow_listed_def)
    with a show ?thesis
      unfolding re_match_source_def list_ex_iff
      by (intro bexI [of _ "length s"]) (auto simp: spec_allow_listed_def at_dollar_def)
  next
    assume "\<exists>b. spec_allow_listed b \<and> s = b @ [nl]"
    then obtain b where b: "spec_allow_listed b" "s = b @ [nl]" by blast
    then have "1 \<le> length b" by (cases b) (auto simp: spec_allow_listed_def)
    with b show ?thesis
      unfolding re_match_source_def list_ex_iff
      by (intro bexI [of _ "length b"]) (auto simp: spec_allow_listed_def at_dollar_def)
  qed
qed

text \<open>
  Claim C3, evaluated on the source. For the input of the claim,
  \<^verbatim>\<open>["doc_0", "doc_0; rm -rf"]\<close>, only \<^verbatim>\<open>doc_0\<close> is kept. The source name
  \<^verbatim>\<open>doc_0\<close> followed by a newline is kept as well, although it is not made of
  allow-listed characters only: \<^verbatim>\<open>$\<close> matches before the final newline.
\<close>

theorem trailing_newline_survives:
  "valid_sources [''doc_0'', ''doc_0; rm -rf''] = [''doc_0'']
   \<and> valid_sources [''doc_0'' @ [nl]] = [''doc_0'' @ [nl]]
   \<and> \<not> spec_allow_listed (''doc_0'' @ [nl])"
  by (simp add: valid_sources_def re_match_source_iff spec_allow_listed_def in_class_def)

section \<open>Properties of the search and grounding tools\<close>

text \<open>The loops in closed form.\<close>

lemma search_format_eq:
  "search_format i docs acc =
     acc @ concat (map (\<lambda>(k, d). ''[doc_'' @ str_nat k @ '']: Content: ''
                         @ take 2000 (page_content d) @ [nl] @ ''-----'' @ [nl])
                    (enumerate i docs))"
  by (induction docs arbitrary: i acc) (simp_all add: Let_def)

lemma map_enumerate_nth:
  "map (\<lambda>(k, d). f k d) (enumerate 0 xs) = map (\<lambda>i. f i (xs ! i)) [0..<length xs]"
  by (rule nth_equalityI) (simp_all add: nth_enumerate_eq)

lemma append_docs_eq:
  "append_docs docs acc =
     acc @ map (\<lambda>d. \<lparr>content = page_content d, result_metadata = d\<rparr>) docs"
  by (induction docs arbitrary: acc) simp_all

lemma collect_results_eq:
  "collect_results vs srcs acc =
     acc @ map (\<lambda>d. \<lparr>content = page_content d, result_metadata = d\<rparr>)
             (concat (map (similarity_search vs) srcs))"
  by (induction srcs arbitrary: acc) (simp_all add: append_docs_eq Let_def)

lemma grounding_format_eq:
  "grounding_format rs acc =
     acc @ concat (map (\<lambda>r. ''['' @ take 200 (content r) @ ''...'' @ [nl] @ ''-----'' @ [nl]) rs)"
  by (induction rs arbitrary: acc) simp_all

lemma not_space_bracket: "\<not> is_space CHR ''[''"
  by (simp add: is_space_def)

lemma not_space_dash: "\<not> is_space CHR ''-''"
  by (simp add: is_space_def)

lemma space_nl: "is_space nl"
  by (simp add: is_space_def)

lemma not_isspace_bracket: "\<not> isspace (CHR ''['' # s)"
  by (simp add: isspace_def not_space_bracket)

lemma strip_bracket_dash_nl:
  "strip (CHR ''['' # s @ [CHR ''-'', nl]) = CHR ''['' # s @ [CHR ''-'']"
  by (simp add: strip_def not_space_bracket not_space_dash space_nl)

lemma strip_one: "strip ''1'' = ''1''"
  by (simp add: strip_def is_space_def)

lemma search_format_Nil_iff: "search_format 0 docs [] = [] \<longleftrightarrow> docs = []"
  by (cases docs) (simp_all add: search_format_eq)

lemma search_tool_results:
  "args ''query'' = Some query \<Longrightarrow>
   search_tool vector_store args =
     Inr \<lparr>payload = (if similarity_search vector_store query = [] then ''1''
                      else search_format 0 (similarity_search vector_store query) []),
           direction = TO_SERVER\<rparr>"
proof (cases "similarity_search vector_store query")
  case Nil
  then show "args ''query'' = Some query \<Longrightarrow> ?thesis"
    by (simp add: search_tool_def vector_search_def)
next
  case (Cons d ds)
  have "\<not> isspace (search_format 0 (d # ds) [])"
    by (simp add: search_format_eq not_isspace_bracket)
  moreover have "search_format 0 (d # ds) [] \<noteq> []"
    by (simp add: search_format_eq)
  ultimately show "args ''query'' = Some query \<Longrightarrow> ?thesis"
    using Cons by (simp add: search_tool_def vector_search_def Let_def)
qed

lemma grounding_text_shape:
  "docs \<noteq> [] \<Longrightarrow>
   \<exists>s. concat (map (\<lambda>d. ''['' @ take 200 (page_content d) @ ''...'' @ [nl] @ ''-----'' @ [nl])
                  docs) = CHR ''['' # s @ [CHR ''-'', nl]"
proof (induction docs)
  case Nil
  then show ?case by simp
next
  case (Cons d ds)
  show ?case
  proof (cases "ds = []")
    case True
    then show ?thesis by simp
  next
    case False
    with Cons.IH obtain s where
      "concat (map (\<lambda>d. ''['' @ take 200 (page_content d) @ ''...'' @ [nl] @ ''-----'' @ [nl])
                  ds) = CHR ''['' # s @ [CHR ''-'', nl]"
      by blast
    then show ?thesis by simp
  qed
qed

lemma grounding_format_results:
  "grounding_format (collect_results vs srcs []) [] =
     concat (map (\<lambda>d. ''['' @ take 200 (page_content d) @ ''...'' @ [nl] @ ''-----'' @ [nl])
               (concat (map (similarity_search vs) srcs)))"
  by (simp add: grounding_format_eq collect_results_eq comp_def)

lemma strip_grounding_text:
  "X = CHR ''['' # s @ [CHR ''-'', nl] \<Longrightarrow>
   strip (if X = [] \<or> isspace X then ''1'' else X) = butlast X"
  by (simp add: not_isspace_bracket strip_bracket_dash_nl butlast_append)

lemma report_grounding_tool_results:
  assumes "gargs ''sources'' = Some sources"
  shows "report_grounding_tool vector_store gargs =
     Inr \<lparr>payload =
            (if concat (map (similarity_search vector_store) (valid_sources sources)) = []
             then ''1''
             else butlast (concat (map (\<lambda>d. ''['' @ take 200 (page_content d) @ ''...'' @ [nl]
                                            @ ''-----'' @ [nl])
                     (concat (map (similarity_search vector_store) (valid_sources sources)))))),
           direction = TO_SERVER\<rparr>"
proof -
  define docs where "docs = concat (map (similarity_search vector_store) (valid_sources sources))"
  define X where
    "X = concat (map (\<lambda>d. ''['' @ take 200 (page_content d) @ ''...'' @ [nl] @ ''-----'' @ [nl])
           docs)"
  have fmt: "grounding_format (collect_results vector_store (valid_sources sources) []) [] = X"
    by (simp only: X_def docs_def grounding_format_results)
  have tool: "report_grounding_tool vector_store gargs =
      Inr \<lparr>payload = strip (if X = [] \<or> isspace X then ''1'' else X), direction = TO_SERVER\<rparr>"
    by (simp add: report_grounding_tool_def Let_def assms fmt)
  have "strip (if X = [] \<or> isspace X then ''1'' else X) = (if docs = [] then ''1'' else butlast X)"
  proof (cases "docs = []")
    case True
    then show ?thesis by (simp add: X_def strip_one)
  next
    case False
    from grounding_text_shape [OF False] obtain s where "X = CHR ''['' # s @ [CHR ''-'', nl]"
      unfolding X_def by blast
    from strip_grounding_text [OF this] False show ?thesis by simp
  qed
  with tool show ?thesis by (simp only: X_def docs_def)
qed

text \<open>
  Claim C2. When the store returns no document for the query, the search tool's
  payload is exactly the text \<^verbatim>\<open>1\<close>; when the lookups of the valid sources return no
  document at all (the knowledge base is empty, nothing matches, or no source is
  valid), the grounding tool's payload is exactly \<^verbatim>\<open>1\<close>. Neither tool ever returns
  an empty payload.
\<close>

theorem sentinel_for_no_results:
  "(args ''query'' = Some query \<and> similarity_search vector_store query = []
      \<longrightarrow> search_tool vector_store args = Inr \<lparr>payload = ''1'', direction = TO_SERVER\<rparr>)
   \<and> (gargs ''sources'' = Some sources
        \<and> concat (map (similarity_search vector_store) (valid_sources sources)) = []
      \<longrightarrow> report_grounding_tool vector_store gargs
            = Inr \<lparr>payload = ''1'', direction = TO_SERVER\<rparr>)
   \<and> (\<forall>r. search_tool vector_store args = Inr r \<longrightarrow> payload r \<noteq> [])
   \<and> (\<forall>r. report_grounding_tool vector_store gargs = Inr r \<longrightarrow> payload r \<noteq> [])"
proof (intro conjI allI impI)
  assume "args ''query'' = Some query \<and> similarity_search vector_store query = []"
  then show "search_tool vector_store args = Inr \<lparr>payload = ''1'', direction = TO_SERVER\<rparr>"
    by (simp add: search_tool_results)
next
  assume "gargs ''sources'' = Some sources
        \<and> concat (map (similarity_search vector_store) (valid_sources sources)) = []"
  then show "report_grounding_tool vector_store gargs
            = Inr \<lparr>payload = ''1'', direction = TO_SERVER\<rparr>"
    by (simp add: report_grounding_tool_results)
next
  fix r assume r: "search_tool vector_store args = Inr r"
  then obtain query where q: "args ''query'' = Some query"
    by (auto simp: search_tool_def split: option.splits)
  show "payload r \<noteq> []"
    using r search_format_Nil_iff [of "similarity_search vector_store query"]
    by (auto simp: search_tool_results [of args query, OF q] split: if_splits)
next
  fix r assume r: "report_grounding_tool vector_store gargs = Inr r"
  then obtain sources where q: "gargs ''sources'' = Some sources"
    by (auto simp: report_grounding_tool_def split: option.splits)
  define docs where "docs = concat (map (similarity_search vector_store) (valid_sources sources))"
  define X where
    "X = concat (map (\<lambda>d. ''['' @ take 200 (page_content d) @ ''...'' @ [nl] @ ''-----'' @ [nl])
           docs)"
  note res = report_grounding_tool_results [of gargs sources vector_store, OF q,
      folded docs_def, folded X_def]
  from r res have p: "payload r = (if docs = [] then ''1'' else butlast X)"
    by auto
  show "payload r \<noteq> []"
  proof (cases "docs = []")
    case True
    with p show ?thesis by simp
  next
    case False
    from grounding_text_shape [OF False] obtain s where "X = CHR ''['' # s @ [CHR ''-'', nl]"
      unfolding X_def by blast
    with p False show ?thesis by (simp add: butlast_append)
  qed
qed

theorem sentinel_for_no_results_witness:
  "search_tool empty_store [''query'' \<mapsto> ''installation'']
     = Inr \<lparr>payload = ''1'', direction = TO_SERVER\<rparr>
   \<and> report_grounding_tool manual_store [''sources'' \<mapsto> [''doc_7'', ''doc_0; rm -rf'']]
     = Inr \<lparr>payload = ''1'', direction = TO_SERVER\<rparr>
   \<and> ''1'' \<noteq> []"
  using sentinel_for_no_results [of "[''query'' \<mapsto> ''installation'']" "''installation''"
          empty_store "[''sources'' \<mapsto> [''doc_7'', ''doc_0; rm -rf'']]"
          "[''doc_7'', ''doc_0; rm -rf'']"]
    sentinel_for_no_results [of "[''query'' \<mapsto> ''installation'']" "''installation''"
          manual_store "[''sources'' \<mapsto> [''doc_7'', ''doc_0; rm -rf'']]"
          "[''doc_7'', ''doc_0; rm -rf'']"]
  by (simp add: empty_store_def manual_store_def valid_sources_def re_match_source_iff
        spec_allow_listed_def in_class_def)

text \<open>
  Claim C4. For a non-empty list of search results the payload of the search tool is
  the concatenation, in the order of the results, of the segments
  \<^verbatim>\<open>[doc_i]: Content: {content_i}\n-----\n\<close> for \<open>i = 0, 1, 2, ...\<close>, where
  \<open>content_i\<close> is the first 2000 characters of the content of result \<open>i\<close> (all of it
  when it is shorter). The label is the rank \<open>i\<close>; the metadata of the result, and so
  its title, does not occur.
\<close>

theorem search_payload_format:
  "args ''query'' = Some query \<Longrightarrow> similarity_search vector_store query = docs \<Longrightarrow>
   docs \<noteq> [] \<Longrightarrow>
   search_tool vector_store args =
     Inr \<lparr>payload =
            concat (map (\<lambda>i. ''[doc_'' @ str_nat i @ '']: Content: ''
                              @ take 2000 (page_content (docs ! i)) @ [nl] @ ''-----'' @ [nl])
                     [0..<length docs]),
           direction = TO_SERVER\<rparr>"
  by (simp add: search_tool_results search_format_eq map_enumerate_nth)

theorem search_payload_format_witness:
  "search_tool manual_store [''query'' \<mapsto> ''installation''] =
     Inr \<lparr>payload = ''[doc_0]: Content: The installation takes an hour.'' @ [nl] @ ''-----'' @ [nl]
                     @ ''[doc_1]: Content: Unpack the device.'' @ [nl] @ ''-----'' @ [nl],
           direction = TO_SERVER\<rparr>"
  using search_payload_format [of "[''query'' \<mapsto> ''installation'']" "''installation''"
          manual_store "[manual_chunk_1, manual_chunk_0]"]
  by (simp add: manual_store_def manual_chunk_0_def manual_chunk_1_def str_nat.simps
        digit_char_def upt_conv_Cons)

text \<open>
  Claim C5, as the source has it. When the lookups of the valid sources find
  passages, each passage is cut to its first 200 characters and formatted as the
  segment \<^verbatim>\<open>[{content_snippet}...\n-----\n\<close>; the segments are concatenated in the
  order of the surviving sources (and, for one source, in the order of its results),
  and the payload is this concatenation stripped of surrounding white space, which
  removes exactly its final newline.
\<close>

theorem grounding_payload_format:
  "gargs ''sources'' = Some sources \<Longrightarrow>
   concat (map (similarity_search vector_store) (valid_sources sources)) = docs \<Longrightarrow>
   docs \<noteq> [] \<Longrightarrow>
   report_grounding_tool vector_store gargs =
     Inr \<lparr>payload =
            butlast (concat (map (\<lambda>d. ''['' @ take 200 (page_content d) @ ''...'' @ [nl]
                                       @ ''-----'' @ [nl]) docs)),
           direction = TO_SERVER\<rparr>"
  by (simp add: report_grounding_tool_results del: butlast.simps)

theorem grounding_payload_format_witness:
  "report_grounding_tool manual_store [''sources'' \<mapsto> [''doc_0'', ''doc_0; rm -rf'']] =
     Inr \<lparr>payload = ''[The installation takes an hour....'' @ [nl] @ ''-----'',
           direction = TO_SERVER\<rparr>"
  using grounding_payload_format [of "[''sources'' \<mapsto> [''doc_0'', ''doc_0; rm -rf'']]"
          "[''doc_0'', ''doc_0; rm -rf'']" manual_store "[manual_chunk_1]"]
  by (simp add: manual_store_def manual_chunk_1_def valid_sources_def re_match_source_iff
        spec_allow_listed_def in_class_def)

text \<open>
  The payload is not the plain concatenation of the segments: for the one passage
  found for \<^verbatim>\<open>doc_0\<close> it is not the segment with its final newline.
\<close>

theorem grounding_payload_counterexample:
  "report_grounding_tool manual_store [''sources'' \<mapsto> [''doc_0'']] \<noteq>
     Inr \<lparr>payload = ''[The installation takes an hour....'' @ [nl] @ ''-----'' @ [nl],
           direction = TO_SERVER\<rparr>"
  by (simp add: report_grounding_tool_results manual_store_def manual_chunk_1_def
        valid_sources_def re_match_source_iff spec_allow_listed_def in_class_def)

section \<open>Properties of ingestion\<close>






















section \<open>Properties of chunk\_text\<close>

lemma py_range_up_step:
  "0 < step \<Longrightarrow> i < stop \<Longrightarrow>
   py_range_up i stop step = i # py_range_up (i + step) stop step"
  by (subst py_range_up.simps) simp

lemma py_range_up_done: "stop \<le> i \<Longrightarrow> py_range_up i stop step = []"
  by (subst py_range_up.simps) simp

lemma concat_chunks:
  "0 < C \<Longrightarrow>
   concat (map (\<lambda>i. take C (drop i text)) (py_range_up i (length text) C)) = drop i text"
proof (induction i "length text" C rule: py_range_up.induct)
  case (1 i step)
  show ?case
  proof (cases "length text \<le> i")
    case True
    then show ?thesis by (simp add: py_range_up_done)
  next
    case False
    with 1 have ih: "concat (map (\<lambda>i. take step (drop i text))
                    (py_range_up (i + step) (length text) step)) = drop (i + step) text"
      by simp
    have "drop (i + step) text = drop step (drop i text)"
      by (simp add: add.commute)
    with ih have "concat (map (\<lambda>i. take step (drop i text))
                    (py_range_up i (length text) step))
                  = take step (drop i text) @ drop step (drop i text)"
      using False 1(2) by (simp add: py_range_up_step)
    then show ?thesis by (simp only: append_take_drop_id)
  qed
qed

lemma py_range_up_below:
  "j \<in> set (py_range_up i stop step) \<Longrightarrow> j < stop"
proof (induction i stop step rule: py_range_up.induct)
  case (1 i stop step)
  show ?case
  proof (cases "step = 0 \<or> stop \<le> i")
    case True
    with 1(2) show ?thesis by (subst (asm) py_range_up.simps) auto
  next
    case False
    then have "py_range_up i stop step = i # py_range_up (i + step) stop step"
      by (simp add: py_range_up_step)
    with 1 False show ?thesis by auto
  qed
qed

lemma length_py_range_up:
  "0 < step \<Longrightarrow> length (py_range_up i stop step) = (stop - i + step - 1) div step"
proof (induction i stop step rule: py_range_up.induct)
  case (1 i stop step)
  show ?case
  proof (cases "stop \<le> i")
    case True
    with 1(2) show ?thesis by (simp add: py_range_up_done)
  next
    case False
    with 1 have ih: "length (py_range_up (i + step) stop step)
                       = (stop - (i + step) + step - 1) div step"
      by simp
    have k: "(m + step) div step = Suc (m div step)" for m
      using 1(2) by simp
    have "Suc ((stop - (i + step) + step - 1) div step) = (stop - i + step - 1) div step"
    proof (cases "i + step \<le> stop")
      case True
      then have "stop - i + step - 1 = (stop - (i + step) + step - 1) + step"
        using 1(2) by linarith
      then show ?thesis by (simp only: k)
    next
      case f: False
      have "stop - (i + step) + step - 1 < step" using f 1(2) by linarith
      then have a: "(stop - (i + step) + step - 1) div step = 0" by simp
      have "stop - i - 1 < step" using f False by linarith
      then have "(stop - i - 1) div step = 0" by simp
      moreover have "stop - i + step - 1 = (stop - i - 1) + step" using False by linarith
      ultimately have "(stop - i + step - 1) div step = Suc 0" by (simp only: k)
      with a show ?thesis by simp
    qed
    with ih False 1(2) show ?thesis
      by (simp add: py_range_up_step)
  qed
qed

lemma ceiling_div_nat:
  assumes "0 < C"
  shows "\<lceil>real L / real C\<rceil> = int ((L + C - 1) div C)"
proof -
  define n where "n = (L + C - 1) div C"
  have "n * C \<le> L + C - 1"
    unfolding n_def by simp
  with assms have "n * C < L + C" by linarith
  then have "real (n * C) < real (L + C)" by (simp only: of_nat_less_iff)
  then have a: "real n * real C < real L + real C" by simp
  have "L + C - 1 < C + n * C"
    unfolding n_def using assms by (rule dividend_less_div_times)
  with assms have "L \<le> n * C" by linarith
  then have "real L \<le> real (n * C)" by (simp only: of_nat_le_iff)
  then have b: "real L \<le> real n * real C" by simp
  have c: "0 < real C" using assms by simp
  have "real_of_int (int n) - 1 < real L / real C"
    using a c by (simp add: field_simps)
  moreover have "real L / real C \<le> real_of_int (int n)"
    using b c by (simp add: field_simps)
  ultimately show ?thesis
    unfolding n_def [symmetric] by (rule ceiling_unique)
qed

lemma consecutive_overlap_zero: "consecutive_overlap 0 segs"
  by (induction "0::nat" segs rule: consecutive_overlap.induct)
     (simp_all add: shares_overlap_def)

lemma remove_overlaps_zero: "remove_overlaps 0 segs = concat segs"
  by (cases segs) simp_all

text \<open>
  Claim C1, as the source has it. \<^verbatim>\<open>chunk_text\<close> takes no overlap. For a chunk size
  \<open>C > 0\<close> and a text of length \<open>L\<close> it returns \<open>ceil(L / C)\<close> segments, each of at
  most \<open>C\<close> elements, consecutive segments sharing nothing, and the segments
  concatenate to the text: the contract of the splitter for the overlap 0. The empty
  text gives no segment, and no segment is empty.
\<close>

theorem chunk_text_without_overlap:
  "0 < chunk_size \<Longrightarrow>
   \<exists>segs. chunk_text text chunk_size = Inr segs
     \<and> split_spec text (nat chunk_size) 0 segs
     \<and> (text = [] \<longrightarrow> segs = [])
     \<and> list_all (\<lambda>s. s \<noteq> []) segs"
proof -
  assume pos: "0 < chunk_size"
  define C where "C = nat chunk_size"
  define segs where "segs = map (\<lambda>i. take C (drop i text)) (py_range_up 0 (length text) C)"
  have C: "0 < C" using pos by (simp add: C_def)
  have run: "chunk_text text chunk_size = Inr segs"
    using pos by (simp add: chunk_text_def segs_def C_def)
  have count: "int (length segs) = spec_segment_count (length text) C 0"
    using ceiling_div_nat [OF C, of "length text"]
    by (simp add: segs_def spec_segment_count_def length_py_range_up [OF C])
  have bound: "list_all (\<lambda>s. length s \<le> C) segs"
    by (simp add: segs_def list_all_iff)
  have whole: "remove_overlaps 0 segs = text"
    using concat_chunks [OF C, of "text" 0] by (simp add: remove_overlaps_zero segs_def)
  have nonempty: "list_all (\<lambda>s. s \<noteq> []) segs"
    using C by (auto simp: segs_def list_all_iff dest: py_range_up_below)
  have empty: "text = [] \<longrightarrow> segs = []"
    by (simp add: segs_def py_range_up_done)
  from run count bound whole nonempty empty show ?thesis
    unfolding C_def [symmetric]
    by (auto simp: split_spec_def consecutive_overlap_zero)
qed

theorem chunk_text_without_overlap_witness:
  "(0::int) < 2 \<and> chunk_text ''abcde'' 2 = Inr [''ab'', ''cd'', ''e'']
   \<and> split_spec ''abcde'' 2 0 [''ab'', ''cd'', ''e'']
   \<and> list_all (\<lambda>s. s \<noteq> []) [''ab'', ''cd'', ''e'']"
proof -
  have e: "chunk_text ''abcde'' 2 = Inr [''ab'', ''cd'', ''e'']"
    by (simp add: chunk_text_def py_range_up.simps)
  from chunk_text_without_overlap [of 2 "''abcde''"] e show ?thesis
    by auto
qed

text \<open>
  For an overlap above 0 the contract fails: for the text \<^verbatim>\<open>abcd\<close>, the chunk size 2
  and the overlap 1 it asks for 3 segments, and \<^verbatim>\<open>chunk_text\<close> returns the two
  segments \<^verbatim>\<open>ab\<close> and \<^verbatim>\<open>cd\<close>, which share no character.
\<close>

theorem chunk_text_overlap_counterexample:
  "chunk_text ''abcd'' 2 = Inr [''ab'', ''cd'']
   \<and> spec_segment_count 4 2 1 = 3
   \<and> \<not> split_spec ''abcd'' 2 1 [''ab'', ''cd'']"
  by (simp add: chunk_text_def py_range_up.simps split_spec_def spec_segment_count_def
        shares_overlap_def)

end
